theory Spec2Isabelle
  imports Complex_Main "HOL-Library.Sublist"
begin

section \<open>Asynchronous code with exceptions\<close>

text \<open>
  The services and the hook are \<^verbatim>\<open>async\<close> TypeScript: a call may change a store
  (the key-value backend, the React state, the trace of network requests) and either
  returns a value or rejects with an error. A computation is therefore a function from
  the store to an outcome and the store afterwards. The store survives a rejection:
  what was written before a \<^verbatim>\<open>throw\<close> stays written. A single consumer is
  assumed, so each \<^verbatim>\<open>await\<close> runs to completion before the next statement.
\<close>

datatype exn =
    SyntaxError       \<comment> \<open>\<^verbatim>\<open>JSON.parse\<close> on text that is not JSON\<close>
  | TypeError         \<comment> \<open>property read or call on \<^verbatim>\<open>undefined\<close>/\<^verbatim>\<open>null\<close>, unserialisable value\<close>
  | BackendError      \<comment> \<open>a rejection of the key-value backend or of the location provider\<close>
  | NetworkError      \<comment> \<open>a rejection of the HTTP client\<close>
  | Error string      \<comment> \<open>\<^verbatim>\<open>new Error(message)\<close>\<close>

type_synonym ('a, 's) io = "'s \<Rightarrow> (exn + 'a) \<times> 's"

definition return :: "'a \<Rightarrow> ('a, 's) io" where
  "return x = (\<lambda>s. (Inr x, s))"

definition throw :: "exn \<Rightarrow> ('a, 's) io" where
  "throw e = (\<lambda>s. (Inl e, s))"

definition await :: "('a, 's) io \<Rightarrow> ('a \<Rightarrow> ('b, 's) io) \<Rightarrow> ('b, 's) io" where
  "await m k = (\<lambda>s. case m s of (Inl e, s') \<Rightarrow> (Inl e, s') | (Inr x, s') \<Rightarrow> k x s')"

definition try_catch :: "('a, 's) io \<Rightarrow> (exn \<Rightarrow> ('a, 's) io) \<Rightarrow> ('a, 's) io" where
  "try_catch body handler =
     (\<lambda>s. case body s of (Inl e, s') \<Rightarrow> handler e s' | (Inr x, s') \<Rightarrow> (Inr x, s'))"

definition try_finally :: "('a, 's) io \<Rightarrow> (unit, 's) io \<Rightarrow> ('a, 's) io" where
  "try_finally body final =
     (\<lambda>s. case body s of (r, s') \<Rightarrow>
        (case final s' of (Inl e, s'') \<Rightarrow> (Inl e, s'') | (Inr _, s'') \<Rightarrow> (r, s'')))"

section \<open>Data model (types/index.ts)\<close>

record 'a CacheEntry =
  data :: 'a
  timestamp :: int
  expiresIn :: int

text \<open>
  \<^verbatim>\<open>timestamp\<close> is a \<^verbatim>\<open>Date.now()\<close> reading and \<^verbatim>\<open>expiresIn\<close> a number of
  milliseconds; both are whole numbers far below \<open>2^53\<close>, where the subtraction and
  comparison of JavaScript numbers are exact, so they are integers here.
\<close>

section \<open>The key-value backend and JSON (platform)\<close>

text \<open>
  \<^verbatim>\<open>AsyncStorage\<close> maps keys to texts. A text is identified with the value it is the
  JSON of: \<open>Doc v\<close> is the text \<^verbatim>\<open>JSON.stringify\<close> produces for \<open>v\<close> and
  \<^verbatim>\<open>JSON.parse\<close> reads back as \<open>v\<close>; \<open>Garbage\<close> is any text \<^verbatim>\<open>JSON.parse\<close>
  rejects. The type parameter is the \<^verbatim>\<open>T\<close> of the generic methods, taken at its word.
\<close>

datatype 'v json_text = Doc 'v | Garbage

type_synonym 'v storage = "string \<rightharpoonup> 'v json_text"

text \<open>Which platform calls fail is not decided by the program: it is a parameter.\<close>

record 'v platform =
  getItem_rejects :: "string \<Rightarrow> bool"
  setItem_rejects :: "string \<Rightarrow> bool"
  removeItem_rejects :: "string \<Rightarrow> bool"
  clear_rejects :: bool
  stringify_throws :: "'v \<Rightarrow> bool"

definition AsyncStorage_getItem :: "'v platform \<Rightarrow> string \<Rightarrow> ('v json_text option, 'v storage) io" where
  "AsyncStorage_getItem env key =
     (\<lambda>st. if getItem_rejects env key then (Inl BackendError, st) else (Inr (st key), st))"

definition AsyncStorage_setItem :: "'v platform \<Rightarrow> string \<Rightarrow> 'v json_text \<Rightarrow> (unit, 'v storage) io" where
  "AsyncStorage_setItem env key txt =
     (\<lambda>st. if setItem_rejects env key then (Inl BackendError, st) else (Inr (), st(key \<mapsto> txt)))"

definition AsyncStorage_removeItem :: "'v platform \<Rightarrow> string \<Rightarrow> (unit, 'v storage) io" where
  "AsyncStorage_removeItem env key =
     (\<lambda>st. if removeItem_rejects env key then (Inl BackendError, st) else (Inr (), st(key := None)))"

definition AsyncStorage_clear :: "'v platform \<Rightarrow> (unit, 'v storage) io" where
  "AsyncStorage_clear env =
     (\<lambda>st. if clear_rejects env then (Inl BackendError, st) else (Inr (), Map.empty))"

definition JSON_stringify :: "'v platform \<Rightarrow> 'v \<Rightarrow> ('v json_text, 's) io" where
  "JSON_stringify env v = (if stringify_throws env v then throw TypeError else return (Doc v))"

definition JSON_parse :: "'v json_text \<Rightarrow> ('v, 's) io" where
  "JSON_parse txt = (case txt of Doc v \<Rightarrow> return v | Garbage \<Rightarrow> throw SyntaxError)"

section \<open>StorageService (services/storage.service.ts)\<close>

text \<open>\<^verbatim>\<open>null\<close> is \<open>None\<close>. The \<^verbatim>\<open>console.error\<close> calls of the handlers are not modelled.\<close>

definition get :: "'v platform \<Rightarrow> string \<Rightarrow> ('v option, 'v storage) io" where
  "get env key =
     try_catch
       (await (AsyncStorage_getItem env key) (\<lambda>jsonValue.
          case jsonValue of
            Some txt \<Rightarrow> await (JSON_parse txt) (\<lambda>v. return (Some v))
          | None \<Rightarrow> return None))
       (\<lambda>error. return None)"

definition set' :: "'v platform \<Rightarrow> string \<Rightarrow> 'v \<Rightarrow> (bool, 'v storage) io" where
  "set' env key v =
     try_catch
       (await (JSON_stringify env v) (\<lambda>txt.
        await (AsyncStorage_setItem env key txt) (\<lambda>_.
        return True)))
       (\<lambda>error. return False)"

definition remove :: "'v platform \<Rightarrow> string \<Rightarrow> (bool, 'v storage) io" where
  "remove env key =
     try_catch
       (await (AsyncStorage_removeItem env key) (\<lambda>_. return True))
       (\<lambda>error. return False)"

text \<open>\<open>now\<close> is the reading of \<^verbatim>\<open>Date.now()\<close> inside the call.\<close>

definition getCached :: "'a CacheEntry platform \<Rightarrow> int \<Rightarrow> string \<Rightarrow> ('a option, 'a CacheEntry storage) io" where
  "getCached env now key =
     try_catch
       (await (get env key) (\<lambda>cached.
          case cached of
            None \<Rightarrow> return None
          | Some entry \<Rightarrow>
              if now - timestamp entry > expiresIn entry
              then await (remove env key) (\<lambda>_. return None)
              else return (Some (data entry))))
       (\<lambda>error. return None)"

definition setCached :: "'a CacheEntry platform \<Rightarrow> int \<Rightarrow> string \<Rightarrow> 'a \<Rightarrow> int \<Rightarrow> (bool, 'a CacheEntry storage) io" where
  "setCached env now key d ttl =
     (let cacheEntry = \<lparr>data = d, timestamp = now, expiresIn = ttl\<rparr>
      in set' env key cacheEntry)"

definition clear :: "'v platform \<Rightarrow> (bool, 'v storage) io" where
  "clear env =
     try_catch
       (await (AsyncStorage_clear env) (\<lambda>_. return True))
       (\<lambda>error. return False)"

text \<open>A platform on which no call fails, for the concrete instances below.\<close>

definition healthy :: "'v platform" where
  "healthy = \<lparr>getItem_rejects = (\<lambda>_. False), setItem_rejects = (\<lambda>_. False),
     removeItem_rejects = (\<lambda>_. False), clear_rejects = False, stringify_throws = (\<lambda>_. False)\<rparr>"

definition broken :: "'v platform" where
  "broken = \<lparr>getItem_rejects = (\<lambda>_. True), setItem_rejects = (\<lambda>_. True),
     removeItem_rejects = (\<lambda>_. True), clear_rejects = True, stringify_throws = (\<lambda>_. True)\<rparr>"

section \<open>Attractions and their scores (types/index.ts)\<close>

text \<open>
  A JavaScript \<^verbatim>\<open>number\<close> that is not a time is a real number here (no rounding,
  no \<^verbatim>\<open>NaN\<close>, which JSON cannot carry either). An optional field is an \<open>option\<close>.
  The records are extensible, so a field an object has beyond its interface is kept by
  the spread \<^verbatim>\<open>{...attraction}\<close> as the record update keeps the extension.
\<close>

datatype ident = IdString string | IdNumber real

record Attraction =
  id' :: ident
  name :: string
  latitude :: real
  longitude :: real
  type' :: string
  distance :: real
  rating :: real
  description :: "string option"
  interestScore :: "real option"
  interestReason :: "string option"
  savedAt :: "string option"

record AttractionScore =
  name :: string
  score :: real
  reason :: string

section \<open>OpenAIService (services/openai.service.ts)\<close>

text \<open>
  \<^verbatim>\<open>x || d\<close> on an optional number or string: \<^verbatim>\<open>undefined\<close>, \<open>0\<close> and the empty
  string are falsy and give \<open>d\<close>.
\<close>

definition or_number :: "real option \<Rightarrow> real \<Rightarrow> real" where
  "or_number x d = (case x of None \<Rightarrow> d | Some v \<Rightarrow> if v = 0 then d else v)"

definition or_string :: "string option \<Rightarrow> string \<Rightarrow> string" where
  "or_string x d = (case x of None \<Rightarrow> d | Some v \<Rightarrow> if v = [] then d else v)"

text \<open>\<^verbatim>\<open>scores.find(...)\<close> is \<^const>\<open>find\<close>: the first element that satisfies the test.\<close>

definition mergeScoresWithAttractions ::
    "'z Attraction_scheme list \<Rightarrow> AttractionScore list \<Rightarrow> 'z Attraction_scheme list" where
  "mergeScoresWithAttractions attractions scores =
     map (\<lambda>attraction.
        let scoreData = find (\<lambda>s. AttractionScore.name s = Attraction.name attraction) scores
        in attraction\<lparr>
             interestScore := Some (or_number (map_option score scoreData) 5),
             interestReason := Some (or_string (map_option reason scoreData) [])\<rparr>)
       attractions"

text \<open>An attraction with its two interest fields blanked: all that a merge may not touch.\<close>

definition without_interest :: "'z Attraction_scheme \<Rightarrow> 'z Attraction_scheme" where
  "without_interest a = a\<lparr>interestScore := None, interestReason := None\<rparr>"

text \<open>
  The platform of the classification: the configured key (\<^verbatim>\<open>config.get\<close>, a string
  as \<^verbatim>\<open>getOpenApiKey\<close> declares), the HTTP client and \<^verbatim>\<open>JSON.parse\<close> at the type
  \<^verbatim>\<open>parseScoresFromResponse\<close> declares. The store of these computations is the trace
  of the requests sent.
\<close>

record classification_request =
  authorization :: string
  interestsText :: string
  attractionNames :: string

record openai_response =
  choices :: "string list"    \<comment> \<open>the \<^verbatim>\<open>message.content\<close> of each choice\<close>

record openai_platform =
  openai_api_key :: string
  axios :: "classification_request \<Rightarrow> exn + openai_response"
  JSON_parse_scores :: "string \<Rightarrow> exn + AttractionScore list"

definition settle :: "exn + 'a \<Rightarrow> ('a, 's) io" where
  "settle r = (\<lambda>s. (r, s))"

definition axios_post :: "openai_platform \<Rightarrow> classification_request \<Rightarrow>
    (openai_response, classification_request list) io" where
  "axios_post env req = (\<lambda>sent. (axios env req, sent @ [req]))"

definition getOpenApiKey :: "openai_platform \<Rightarrow> string" where
  "getOpenApiKey env = openai_api_key env"

definition isValidApiKey :: "string \<Rightarrow> bool" where
  "isValidApiKey key = (if \<not> prefix ''sk'' key then False else True)"

fun join :: "string \<Rightarrow> string list \<Rightarrow> string" where
  "join sep [] = []"
| "join sep [x] = x"
| "join sep (x # y # ys) = x @ sep @ join sep (y # ys)"

text \<open>
  The text before and after the first \<^verbatim>\<open>```\<close>. The match of
  \<^verbatim>\<open>/```(?:json)?\s*([\s\S]*?)```/\<close> starts at the first fence: it takes
  \<^verbatim>\<open>json\<close> when present, then the white space, and captures up to the next fence;
  when no fence follows, no later start can match either. White space is the ASCII part
  of what \<^verbatim>\<open>\s\<close> and \<^verbatim>\<open>trim\<close> accept.
\<close>

fun split_at_fence :: "string \<Rightarrow> (string \<times> string) option" where
  "split_at_fence [] = None"
| "split_at_fence (c # cs) =
     (if prefix ''```'' (c # cs) then Some ([], drop 3 (c # cs))
      else map_option (\<lambda>(before, after). (c # before, after)) (split_at_fence cs))"

definition is_space :: "char \<Rightarrow> bool" where
  "is_space c = (c \<in> set [CHR '' '', CHR 0x09, CHR 0x0A, CHR 0x0B, CHR 0x0C, CHR 0x0D])"

definition trim :: "string \<Rightarrow> string" where
  "trim s = rev (dropWhile is_space (rev (dropWhile is_space s)))"

definition fence_match :: "string \<Rightarrow> string option" where
  "fence_match content =
     (case split_at_fence content of
        None \<Rightarrow> None
      | Some (_, rest) \<Rightarrow>
          let rest1 = (if prefix ''json'' rest then drop 4 rest else rest);
              rest2 = dropWhile is_space rest1
          in map_option fst (split_at_fence rest2))"

text \<open>The value of the variable \<^verbatim>\<open>jsonText\<close> when \<^verbatim>\<open>JSON.parse\<close> is reached.\<close>

definition jsonText :: "string \<Rightarrow> string" where
  "jsonText content =
     (if split_at_fence content \<noteq> None
      then (case fence_match content of Some m \<Rightarrow> trim m | None \<Rightarrow> content)
      else content)"

definition parseScoresFromResponse :: "openai_platform \<Rightarrow> string \<Rightarrow> (AttractionScore list, 's) io" where
  "parseScoresFromResponse env content =
     try_catch
       (settle (JSON_parse_scores env (jsonText content)))
       (\<lambda>error. return [])"

text \<open>\<^verbatim>\<open>response.data.choices[0].message.content\<close>: reading \<^verbatim>\<open>.message\<close> of a missing
  first choice is a \<^verbatim>\<open>TypeError\<close>.\<close>

definition first_choice_content :: "openai_response \<Rightarrow> (string, 's) io" where
  "first_choice_content response =
     (case choices response of [] \<Rightarrow> throw TypeError | content # _ \<Rightarrow> return content)"

text \<open>The request of \<^verbatim>\<open>classifyAttractions\<close>: what the fixed prompt is filled with.\<close>

definition classification :: "'z Attraction_scheme list \<Rightarrow> string list \<Rightarrow> string \<Rightarrow> classification_request" where
  "classification attractions userInterests OPENAI_API_KEY =
     (let attractionNames = join '', '' (map Attraction.name attractions);
          interestsText = join '', '' userInterests
      in \<lparr>authorization = ''Bearer '' @ OPENAI_API_KEY,
          interestsText = interestsText,
          attractionNames = attractionNames\<rparr>)"

definition classifyAttractions :: "openai_platform \<Rightarrow> 'z Attraction_scheme list \<Rightarrow> string list \<Rightarrow>
    ('z Attraction_scheme list, classification_request list) io" where
  "classifyAttractions env attractions userInterests =
     (let OPENAI_API_KEY = getOpenApiKey env in
      if userInterests = [] \<or> \<not> isValidApiKey OPENAI_API_KEY then return attractions
      else
        try_catch
          (await (axios_post env (classification attractions userInterests OPENAI_API_KEY)) (\<lambda>response.
           await (first_choice_content response) (\<lambda>content.
           await (parseScoresFromResponse env content) (\<lambda>scores.
           return (mergeScoresWithAttractions attractions scores)))))
          (\<lambda>error. return attractions))"

section \<open>LocationService (services/location.service.ts)\<close>

record CityInfo =
  city :: string
  country :: string
  state :: "string option"
  fullAddress :: string
  latitude :: real
  longitude :: real

record Coordinates =
  latitude :: real
  longitude :: real

record LocationObject =
  coords :: Coordinates

text \<open>
  The location platform: the answer of the permission dialogue (its \<^verbatim>\<open>status\<close>, or a
  rejection), the provider's fix, whether a watch can be registered, and the outcome of
  the body of \<^verbatim>\<open>reverseGeocode\<close>'s \<^verbatim>\<open>try\<close> block (the request to the geocoder and
  the reading of its answer). \<^verbatim>\<open>distanceMeters\<close> and \<^verbatim>\<open>MOVEMENT_THRESHOLD\<close> belong to
  utils/distance.ts and the constants, which are not among the sources.
\<close>

record location_platform =
  permission_status :: "exn + string"
  current_position :: "exn + LocationObject"
  watch_rejects :: bool
  nominatim_reverse :: "Coordinates \<Rightarrow> exn + CityInfo option"
  distanceMeters :: "Coordinates \<Rightarrow> Coordinates \<Rightarrow> real"
  MOVEMENT_THRESHOLD :: real

text \<open>
  Modelled from the spec: \<^verbatim>\<open>hasSignificantMovement\<close> of utils/distance.ts, which
  is not among the sources. It "returns true unconditionally if previous is null;
  otherwise true iff distanceMeters(previous, next) >= MOVEMENT_THRESHOLD".
\<close>

definition hasSignificantMovement :: "location_platform \<Rightarrow> Coordinates option \<Rightarrow> Coordinates \<Rightarrow> bool" where
  "hasSignificantMovement env previous next' =
     (case previous of
        None \<Rightarrow> True
      | Some p \<Rightarrow> distanceMeters env p next' \<ge> MOVEMENT_THRESHOLD env)"

text \<open>
  The state the hook's calls act on: the four React state cells, and the registry of
  position watchers of the location provider. A registered watcher is the callback's
  closure: its handle and the value of \<^verbatim>\<open>location\<close> the closure holds. The variable
  \<^verbatim>\<open>subscription\<close> is the one of the latest run of the effect.
\<close>

record hook =
  location :: "Coordinates option"
  cityInfo :: "CityInfo option"
  loading :: bool
  error :: "string option"
  subscription :: "nat option"
  watchers :: "(nat \<times> Coordinates option) list"

definition requestPermissions :: "location_platform \<Rightarrow> (bool, 's) io" where
  "requestPermissions env =
     await (settle (permission_status env)) (\<lambda>status. return (status = ''granted''))"

definition getCurrentLocation :: "location_platform \<Rightarrow> (LocationObject option, 's) io" where
  "getCurrentLocation env =
     try_catch
       (await (requestPermissions env) (\<lambda>hasPermission.
          if \<not> hasPermission then throw (Error ''Location permission denied'')
          else await (settle (current_position env)) (\<lambda>location. return (Some location))))
       (\<lambda>error. return None)"

definition fresh_handle :: "(nat \<times> 'c) list \<Rightarrow> nat" where
  "fresh_handle ws = Suc (foldr max (map fst ws) 0)"

definition Location_watchPositionAsync :: "location_platform \<Rightarrow> Coordinates option \<Rightarrow> (nat, hook) io" where
  "Location_watchPositionAsync env seen =
     (\<lambda>s. if watch_rejects env then (Inl BackendError, s)
          else let h = fresh_handle (watchers s)
               in (Inr h, s\<lparr>watchers := watchers s @ [(h, seen)]\<rparr>))"

text \<open>
  \<^verbatim>\<open>subscription.remove()\<close> takes the watcher out of the provider's registry; on a
  handle that is no longer registered it changes nothing.
\<close>

definition LocationSubscription_remove :: "nat \<Rightarrow> (unit, hook) io" where
  "LocationSubscription_remove h =
     (\<lambda>s. (Inr (), s\<lparr>watchers := filter (\<lambda>w. fst w \<noteq> h) (watchers s)\<rparr>))"

text \<open>The callback handed to \<^verbatim>\<open>watchPosition\<close> is given by the \<^verbatim>\<open>location\<close> it closes over.\<close>

definition watchPosition :: "location_platform \<Rightarrow> Coordinates option \<Rightarrow> (nat option, hook) io" where
  "watchPosition env seen =
     try_catch
       (await (requestPermissions env) (\<lambda>hasPermission.
          if \<not> hasPermission then throw (Error ''Location permission denied'')
          else await (Location_watchPositionAsync env seen) (\<lambda>sub. return (Some sub))))
       (\<lambda>error. return None)"

definition reverseGeocode :: "location_platform \<Rightarrow> Coordinates \<Rightarrow> (CityInfo option, 's) io" where
  "reverseGeocode env coordinates =
     try_catch (settle (nominatim_reverse env coordinates)) (\<lambda>error. return None)"

section \<open>The location hook (hooks/useLocation.ts)\<close>

definition setLocation :: "Coordinates option \<Rightarrow> (unit, hook) io" where
  "setLocation v = (\<lambda>s. (Inr (), s\<lparr>location := v\<rparr>))"

definition setCityInfo :: "CityInfo option \<Rightarrow> (unit, hook) io" where
  "setCityInfo v = (\<lambda>s. (Inr (), s\<lparr>cityInfo := v\<rparr>))"

definition setLoading :: "bool \<Rightarrow> (unit, hook) io" where
  "setLoading v = (\<lambda>s. (Inr (), s\<lparr>loading := v\<rparr>))"

definition setError :: "string option \<Rightarrow> (unit, hook) io" where
  "setError v = (\<lambda>s. (Inr (), s\<lparr>error := v\<rparr>))"

text \<open>\<^verbatim>\<open>err.message\<close>: the message of an \<^verbatim>\<open>Error\<close>; the built-in errors carry their
  engine's text, of which only that it is not empty matters.\<close>

definition message :: "exn \<Rightarrow> string" where
  "message err =
     (case err of
        Error m \<Rightarrow> m
      | SyntaxError \<Rightarrow> ''SyntaxError''
      | TypeError \<Rightarrow> ''TypeError''
      | BackendError \<Rightarrow> ''BackendError''
      | NetworkError \<Rightarrow> ''Network Error'')"

definition loadLocation :: "location_platform \<Rightarrow> (unit, hook) io" where
  "loadLocation env =
     await (setLoading True) (\<lambda>_.
     await (setError None) (\<lambda>_.
     try_finally
       (try_catch
          (await (getCurrentLocation env) (\<lambda>currentLocation.
             case currentLocation of
               Some loc \<Rightarrow>
                 let coords = \<lparr>latitude = latitude (coords loc), longitude = longitude (coords loc)\<rparr>
                 in await (setLocation (Some coords)) (\<lambda>_.
                    await (reverseGeocode env coords) (\<lambda>city.
                    setCityInfo city))
             | None \<Rightarrow> return ()))
          (\<lambda>err. setError (Some (or_string (Some (message err)) ''Failed to get location''))))
       (setLoading False)))"

text \<open>
  The position callback of the effect, as a function of the \<^verbatim>\<open>location\<close> its closure
  holds. The geocoder's answer is taken when the request is made.
\<close>

definition on_position :: "location_platform \<Rightarrow> Coordinates option \<Rightarrow> LocationObject \<Rightarrow> (unit, hook) io" where
  "on_position env location_seen newLocation =
     (let newCoords = \<lparr>latitude = latitude (coords newLocation),
                       longitude = longitude (coords newLocation)\<rparr>
      in if hasSignificantMovement env location_seen newCoords
         then await (setLocation (Some newCoords)) (\<lambda>_.
              await (reverseGeocode env newCoords) (\<lambda>city.
              setCityInfo city))
         else return ())"

text \<open>
  \<^verbatim>\<open>startTracking\<close> in a run of the effect whose render saw \<^verbatim>\<open>location = location_seen\<close>:
  the callback registered is the closure over that value.
\<close>

definition startTracking :: "location_platform \<Rightarrow> Coordinates option \<Rightarrow> (unit, hook) io" where
  "startTracking env location_seen =
     await (watchPosition env location_seen) (\<lambda>sub.
       (\<lambda>s. (Inr (), s\<lparr>subscription := sub\<rparr>)))"

text \<open>The cleanup of the effect, \<^verbatim>\<open>subscription?.remove()\<close>.\<close>

definition cleanup :: "(unit, hook) io" where
  "cleanup =
     (\<lambda>s. case subscription s of
            None \<Rightarrow> return () s
          | Some sub \<Rightarrow> LocationSubscription_remove sub s)"

text \<open>
  The effect \<^verbatim>\<open>useEffect(..., [enableTracking, loadLocation])\<close>: it runs after the
  first render and when \<^verbatim>\<open>enableTracking\<close> changes (\<^verbatim>\<open>loadLocation\<close> is memoised with
  no dependencies), never because \<^verbatim>\<open>location\<close> changed. Its closures hold the
  \<^verbatim>\<open>location\<close> of the render that scheduled it, read before \<^verbatim>\<open>loadLocation\<close> runs.
\<close>

definition effect :: "location_platform \<Rightarrow> bool \<Rightarrow> (unit, hook) io" where
  "effect env enableTracking =
     (\<lambda>s. let location_seen = location s in
        (await (loadLocation env) (\<lambda>_.
           if \<not> enableTracking then return ()
           else await (\<lambda>s'. (Inr (), s'\<lparr>subscription := None\<rparr>)) (\<lambda>_.
                startTracking env location_seen))) s)"

text \<open>The provider delivers a position to every registered watcher, in order of registration.\<close>

fun deliver_to :: "location_platform \<Rightarrow> (nat \<times> Coordinates option) list \<Rightarrow> LocationObject \<Rightarrow> (unit, hook) io" where
  "deliver_to env [] newLocation = return ()"
| "deliver_to env (w # ws) newLocation =
     await (on_position env (snd w) newLocation) (\<lambda>_. deliver_to env ws newLocation)"

definition deliver :: "location_platform \<Rightarrow> LocationObject \<Rightarrow> (unit, hook) io" where
  "deliver env newLocation = (\<lambda>s. deliver_to env (watchers s) newLocation s)"

fun deliver_all :: "location_platform \<Rightarrow> LocationObject list \<Rightarrow> (unit, hook) io" where
  "deliver_all env [] = return ()"
| "deliver_all env (u # us) = await (deliver env u) (\<lambda>_. deliver_all env us)"

text \<open>The hook after the first render: \<^verbatim>\<open>useState(null)\<close>, \<^verbatim>\<open>useState(true)\<close>, no watcher.\<close>

definition mounted :: hook where
  "mounted = \<lparr>location = None, cityInfo = None, loading = True, error = None,
     subscription = None, watchers = []\<rparr>"

section \<open>Concrete inputs\<close>

text \<open>Two attractions before any merge.\<close>

definition attraction_A :: Attraction where
  "attraction_A = \<lparr>id' = IdNumber 1, name = ''A'', latitude = 52, longitude = 13,
     type' = ''museum'', distance = 120, rating = 4, description = None,
     interestScore = None, interestReason = None, savedAt = None\<rparr>"

definition attraction_B :: Attraction where
  "attraction_B = \<lparr>id' = IdString ''b'', name = ''B'', latitude = 52, longitude = 13,
     type' = ''park'', distance = 300, rating = 3, description = None,
     interestScore = None, interestReason = None, savedAt = None\<rparr>"

text \<open>
  Classification platforms: a valid key and a service whose answer is not JSON; a valid
  key and a service that cannot be reached; a valid key and an answer without choices.
\<close>

definition answers_prose :: openai_platform where
  "answers_prose = \<lparr>openai_api_key = ''sk-test'',
     axios = (\<lambda>_. Inr \<lparr>choices = [''Sorry, no scores.'']\<rparr>),
     JSON_parse_scores = (\<lambda>_. Inl SyntaxError)\<rparr>"

definition unreachable :: openai_platform where
  "unreachable = \<lparr>openai_api_key = ''sk-test'',
     axios = (\<lambda>_. Inl NetworkError),
     JSON_parse_scores = (\<lambda>_. Inl SyntaxError)\<rparr>"

definition no_key :: openai_platform where
  "no_key = \<lparr>openai_api_key = [],
     axios = (\<lambda>_. Inl NetworkError),
     JSON_parse_scores = (\<lambda>_. Inl SyntaxError)\<rparr>"

definition answers_nothing :: openai_platform where
  "answers_nothing = \<lparr>openai_api_key = ''sk-test'',
     axios = (\<lambda>_. Inr \<lparr>choices = []\<rparr>),
     JSON_parse_scores = (\<lambda>_. Inl SyntaxError)\<rparr>"

text \<open>
  Location platforms. The user denies the permission; the permission is granted and the
  provider has no fix; the permission is granted, the provider reports Berlin and
  accepts a watch. The distance of the last one stands in for the absent
  \<^verbatim>\<open>distanceMeters\<close>: 111 km for a degree, along the axes; the threshold is 500 m.
\<close>

definition flat_distance :: "Coordinates \<Rightarrow> Coordinates \<Rightarrow> real" where
  "flat_distance a b = 111000 * (\<bar>latitude a - latitude b\<bar> + \<bar>longitude a - longitude b\<bar>)"

definition berlin :: Coordinates where
  "berlin = \<lparr>latitude = 52, longitude = 13\<rparr>"

definition far_away :: Coordinates where
  "far_away = \<lparr>latitude = 5201 / 100, longitude = 13\<rparr>"

definition next_door :: Coordinates where
  "next_door = \<lparr>latitude = 520101 / 10000, longitude = 13\<rparr>"

definition permission_denied :: location_platform where
  "permission_denied = \<lparr>permission_status = Inr ''denied'',
     current_position = Inr \<lparr>coords = berlin\<rparr>, watch_rejects = False,
     nominatim_reverse = (\<lambda>_. Inr None), distanceMeters = flat_distance,
     MOVEMENT_THRESHOLD = 500\<rparr>"

definition provider_down :: location_platform where
  "provider_down = \<lparr>permission_status = Inr ''granted'',
     current_position = Inl BackendError, watch_rejects = True,
     nominatim_reverse = (\<lambda>_. Inr None), distanceMeters = flat_distance,
     MOVEMENT_THRESHOLD = 500\<rparr>"

definition walking :: location_platform where
  "walking = \<lparr>permission_status = Inr ''granted'',
     current_position = Inr \<lparr>coords = berlin\<rparr>, watch_rejects = False,
     nominatim_reverse = (\<lambda>_. Inr None), distanceMeters = flat_distance,
     MOVEMENT_THRESHOLD = 500\<rparr>"

text \<open>The hook holding last-known coordinates, idle.\<close>

definition resolved :: "Coordinates \<Rightarrow> hook" where
  "resolved c = \<lparr>location = Some c, cityInfo = None, loading = False, error = None,
     subscription = None, watchers = []\<rparr>"

section \<open>Properties of the cache store\<close>

lemma get_result:
  "get env key st =
     (Inr (if getItem_rejects env key then None
           else case st key of None \<Rightarrow> None | Some Garbage \<Rightarrow> None | Some (Doc v) \<Rightarrow> Some v), st)"
  by (simp add: get_def try_catch_def await_def AsyncStorage_getItem_def JSON_parse_def
      return_def throw_def split: option.splits json_text.splits)

lemma set_result:
  "set' env key v st =
     (if stringify_throws env v \<or> setItem_rejects env key then (Inr False, st)
      else (Inr True, st(key \<mapsto> Doc v)))"
  by (simp add: set'_def try_catch_def await_def JSON_stringify_def AsyncStorage_setItem_def
      return_def throw_def)

lemma remove_result:
  "remove env key st =
     (if removeItem_rejects env key then (Inr False, st) else (Inr True, st(key := None)))"
  by (simp add: remove_def try_catch_def await_def AsyncStorage_removeItem_def return_def)

lemma clear_result:
  "clear env st = (if clear_rejects env then (Inr False, st) else (Inr True, Map.empty))"
  by (simp add: clear_def try_catch_def await_def AsyncStorage_clear_def return_def)

lemma getCached_entry:
  assumes "\<not> getItem_rejects env key" and "st key = Some (Doc entry)"
  shows "getCached env now key st =
     (if now - timestamp entry > expiresIn entry
      then (Inr None, if removeItem_rejects env key then st else st(key := None))
      else (Inr (Some (data entry)), st))"
  using assms
  by (simp add: getCached_def try_catch_def await_def get_result remove_result return_def)

lemma getCached_no_entry:
  assumes "getItem_rejects env key \<or> st key = None \<or> st key = Some Garbage"
  shows "getCached env now key st = (Inr None, st)"
  using assms
  by (auto simp add: getCached_def try_catch_def await_def get_result return_def)


text \<open>
  Claim C3. A read of a stored cache entry, on a backend that performs the read and the
  delete: it returns absent and removes the key exactly when
  \<open>now - timestamp > expiresIn\<close>, and returns the stored data and leaves the store as it
  is otherwise. For an entry written at \<open>T0\<close> with \<open>expiresIn = 1000\<close>, the read at
  \<open>T0 + 1001\<close> returns absent and removes the key, the read at \<open>T0 + 999\<close> returns the
  data.
\<close>

theorem getCached_expiry:
  assumes "st key = Some (Doc entry)"
    and "\<not> getItem_rejects env key" and "\<not> removeItem_rejects env key"
  shows "getCached env now key st =
           (if now - timestamp entry > expiresIn entry then (Inr None, st(key := None))
            else (Inr (Some (data entry)), st))
         \<and> (timestamp entry = T0 \<and> expiresIn entry = 1000 \<longrightarrow>
              getCached env (T0 + 1001) key st = (Inr None, st(key := None)) \<and>
              getCached env (T0 + 999) key st = (Inr (Some (data entry)), st))"
  using assms by (simp add: getCached_entry)

theorem getCached_expiry_witness:
  "getCached healthy 6001 ''k'' [''k'' \<mapsto> Doc \<lparr>data = ''v'', timestamp = 5000, expiresIn = 1000\<rparr>]
     = (Inr None, Map.empty)
   \<and> getCached healthy 5999 ''k'' [''k'' \<mapsto> Doc \<lparr>data = ''v'', timestamp = 5000, expiresIn = 1000\<rparr>]
     = (Inr (Some ''v''), [''k'' \<mapsto> Doc \<lparr>data = ''v'', timestamp = 5000, expiresIn = 1000\<rparr>])"
  using getCached_expiry [of "[''k'' \<mapsto> Doc \<lparr>data = ''v'', timestamp = 5000, expiresIn = 1000\<rparr>]"
      "''k''" "\<lparr>data = ''v'', timestamp = 5000, expiresIn = 1000\<rparr>" healthy 0 5000]
  by (simp add: healthy_def)

text \<open>
  Claim C10. The comparison is strict: a read at \<open>now - timestamp = expiresIn\<close> returns
  the stored data and leaves the store as it is, and the read of a stored entry returns
  absent only when \<open>now - timestamp\<close> exceeds \<open>expiresIn\<close>.
\<close>

theorem getCached_boundary:
  assumes "st key = Some (Doc entry)" and "\<not> getItem_rejects env key"
  shows "(now - timestamp entry = expiresIn entry \<longrightarrow>
            getCached env now key st = (Inr (Some (data entry)), st))
         \<and> (fst (getCached env now key st) = Inr None \<longleftrightarrow> now - timestamp entry > expiresIn entry)"
  using assms by (simp add: getCached_entry)

theorem getCached_boundary_witness:
  "getCached healthy 6000 ''k'' [''k'' \<mapsto> Doc \<lparr>data = ''v'', timestamp = 5000, expiresIn = 1000\<rparr>]
     = (Inr (Some ''v''), [''k'' \<mapsto> Doc \<lparr>data = ''v'', timestamp = 5000, expiresIn = 1000\<rparr>])"
  using getCached_boundary [of "[''k'' \<mapsto> Doc \<lparr>data = ''v'', timestamp = 5000, expiresIn = 1000\<rparr>]"
      "''k''" "\<lparr>data = ''v'', timestamp = 5000, expiresIn = 1000\<rparr>" healthy 6000]
  by (simp add: healthy_def)

text \<open>
  Claim C8. On a backend that performs the write and the read, \<open>setCached k v ttl\<close> at
  time \<open>t0\<close> succeeds, and \<open>getCached k\<close> on the store it leaves, at any time \<open>t1\<close> with
  \<open>t1 - t0 \<le> ttl\<close>, returns \<open>v\<close> and leaves the store as it is.
\<close>

theorem setCached_getCached_roundtrip:
  assumes "\<not> stringify_throws env \<lparr>data = v, timestamp = t0, expiresIn = ttl\<rparr>"
    and "\<not> setItem_rejects env k" and "\<not> getItem_rejects env k"
    and "t1 - t0 \<le> ttl"
  shows "fst (setCached env t0 k v ttl st) = Inr True
         \<and> getCached env t1 k (snd (setCached env t0 k v ttl st))
             = (Inr (Some v), snd (setCached env t0 k v ttl st))"
  using assms by (simp add: setCached_def set_result getCached_entry)

theorem setCached_getCached_roundtrip_witness:
  "fst (setCached healthy 5000 ''k'' ''v'' 1000 Map.empty) = Inr True
   \<and> fst (getCached healthy 5400 ''k'' (snd (setCached healthy 5000 ''k'' ''v'' 1000 Map.empty)))
       = Inr (Some ''v'')"
  using setCached_getCached_roundtrip [of healthy "''v''" 5000 1000 "''k''" 5400 Map.empty]
  by (simp add: healthy_def)

text \<open>
  Claim C5. No operation of the store rejects, whatever the backend and the serialiser
  do: \<open>get\<close> and \<open>getCached\<close> return absent when the read rejects or the text does not
  parse, \<open>set\<close>, \<open>setCached\<close>, \<open>remove\<close> and \<open>clear\<close> return \<open>false\<close> when the
  serialiser throws or the backend rejects; a failed read gives what a read of a missing
  key gives.
\<close>

theorem storage_absorbs_failures:
  "fst (get env key st)
     = Inr (if getItem_rejects env key then None
            else case st key of None \<Rightarrow> None | Some Garbage \<Rightarrow> None | Some (Doc x) \<Rightarrow> Some x)
   \<and> fst (set' env key v st)
     = Inr (if stringify_throws env v \<or> setItem_rejects env key then False else True)
   \<and> fst (remove env key st) = Inr (if removeItem_rejects env key then False else True)
   \<and> fst (clear env st) = Inr (if clear_rejects env then False else True)
   \<and> fst (getCached cenv now key cst)
     = Inr (if getItem_rejects cenv key then None
            else case cst key of
                   None \<Rightarrow> None
                 | Some Garbage \<Rightarrow> None
                 | Some (Doc entry) \<Rightarrow>
                     if now - timestamp entry > expiresIn entry then None else Some (data entry))
   \<and> fst (setCached cenv now key d ttl cst)
     = Inr (if stringify_throws cenv \<lparr>data = d, timestamp = now, expiresIn = ttl\<rparr>
               \<or> setItem_rejects cenv key then False else True)
   \<and> (getItem_rejects env key \<or> st key = Some Garbage \<longrightarrow>
        fst (get env key st) = fst (get healthy key (st(key := None))))
   \<and> (getItem_rejects cenv key \<or> cst key = Some Garbage \<longrightarrow>
        fst (getCached cenv now key cst) = fst (getCached healthy now key (cst(key := None))))"
proof -
  have g: "fst (getCached cenv now key cst)
     = Inr (if getItem_rejects cenv key then None
            else case cst key of
                   None \<Rightarrow> None
                 | Some Garbage \<Rightarrow> None
                 | Some (Doc entry) \<Rightarrow>
                     if now - timestamp entry > expiresIn entry then None else Some (data entry))"
  proof (cases "getItem_rejects cenv key \<or> cst key = None \<or> cst key = Some Garbage")
    case True
    then show ?thesis by (auto simp add: getCached_no_entry)
  next
    case False
    then obtain entry where "cst key = Some (Doc entry)" and "\<not> getItem_rejects cenv key"
      by (cases "cst key") (auto intro: json_text.exhaust)
    then show ?thesis by (simp add: getCached_entry)
  qed
  have m: "fst (getCached healthy now key (cst(key := None))) = Inr None"
    by (simp add: getCached_no_entry)
  show ?thesis
    using g m by (auto simp add: get_result set_result remove_result clear_result setCached_def healthy_def)
qed

theorem storage_absorbs_failures_witness:
  "fst (get broken ''k'' [''k'' \<mapsto> Doc (1::int)]) = Inr None
   \<and> fst (get healthy ''k'' [''k'' \<mapsto> (Garbage :: int json_text)]) = Inr None
   \<and> fst (getCached broken 0 ''k'' [''k'' \<mapsto> Doc \<lparr>data = ''v'', timestamp = 0, expiresIn = 1000\<rparr>])
       = Inr None"
  using storage_absorbs_failures [of broken "''k''" "[''k'' \<mapsto> Doc (1::int)]" 1 broken 0
      "[''k'' \<mapsto> Doc \<lparr>data = ''v'', timestamp = 0, expiresIn = 1000\<rparr>]" "''v''" 1000]
    storage_absorbs_failures [of healthy "''k''" "[''k'' \<mapsto> (Garbage :: int json_text)]" 1 healthy 0
      "[''k'' \<mapsto> (Garbage :: string CacheEntry json_text)]" "''v''" 1000]
  by (simp add: healthy_def broken_def)


section \<open>Properties of the relevance merger\<close>

lemma merge_no_scores:
  "mergeScoresWithAttractions attractions [] =
     map (\<lambda>a. a\<lparr>interestScore := Some 5, interestReason := Some []\<rparr>) attractions"
  by (simp add: mergeScoresWithAttractions_def or_number_def or_string_def)

text \<open>
  Claim C1, at the input where the code leaves it: the attraction \<open>A\<close> and the matching
  score \<open>{name: "A", score: 0, reason: "x"}\<close>. The reason is taken over, the score
  \<open>0\<close> is replaced by the default \<open>5\<close> of an unmatched attraction.
\<close>

theorem merge_matched_zero_score:
  "mergeScoresWithAttractions [attraction_A] [\<lparr>name = ''A'', score = 0, reason = ''x''\<rparr>]
     = [attraction_A\<lparr>interestScore := Some 5, interestReason := Some ''x''\<rparr>]"
  by (simp add: mergeScoresWithAttractions_def or_number_def or_string_def attraction_A_def)

lemma merge_nth:
  assumes "i < length attractions"
  shows "mergeScoresWithAttractions attractions scores ! i =
     (attractions ! i)\<lparr>
        interestScore := Some (case find (\<lambda>s. AttractionScore.name s = Attraction.name (attractions ! i)) scores of
                                 None \<Rightarrow> 5
                               | Some s \<Rightarrow> if score s = 0 then 5 else score s),
        interestReason := Some (case find (\<lambda>s. AttractionScore.name s = Attraction.name (attractions ! i)) scores of
                                  None \<Rightarrow> []
                                | Some s \<Rightarrow> reason s)\<rparr>"
  using assms
  by (simp add: mergeScoresWithAttractions_def or_number_def or_string_def Let_def
      split: option.splits)

text \<open>
  Claim C6. The merge returns a list of the length of the attractions list, in its order:
  the element at each position is the input attraction at that position with the fields
  \<open>interestScore\<close> and \<open>interestReason\<close> set and every other field as it was.
\<close>

theorem merge_keeps_attractions:
  "length (mergeScoresWithAttractions attractions scores) = length attractions
   \<and> map without_interest (mergeScoresWithAttractions attractions scores)
       = map without_interest attractions
   \<and> (\<forall>i < length attractions. \<exists>x r.
         mergeScoresWithAttractions attractions scores ! i
           = (attractions ! i)\<lparr>interestScore := x, interestReason := r\<rparr>)"
proof (intro conjI allI impI)
  show "length (mergeScoresWithAttractions attractions scores) = length attractions"
    by (simp add: mergeScoresWithAttractions_def)
  show "map without_interest (mergeScoresWithAttractions attractions scores)
      = map without_interest attractions"
    by (simp add: mergeScoresWithAttractions_def without_interest_def Let_def)
next
  fix i assume "i < length attractions"
  then show "\<exists>x r. mergeScoresWithAttractions attractions scores ! i
      = (attractions ! i)\<lparr>interestScore := x, interestReason := r\<rparr>"
    using merge_nth [of i attractions scores] by blast
qed

theorem merge_keeps_attractions_witness:
  "length (mergeScoresWithAttractions [attraction_A, attraction_B]
             [\<lparr>name = ''Z'', score = 9, reason = ''z''\<rparr>, \<lparr>name = ''A'', score = 8, reason = ''x''\<rparr>]) = 2
   \<and> (\<exists>x r. mergeScoresWithAttractions [attraction_A, attraction_B]
             [\<lparr>name = ''Z'', score = 9, reason = ''z''\<rparr>, \<lparr>name = ''A'', score = 8, reason = ''x''\<rparr>] ! 1
           = attraction_B\<lparr>interestScore := x, interestReason := r\<rparr>)"
proof -
  let ?as = "[attraction_A, attraction_B]"
  let ?sc = "[\<lparr>name = ''Z'', score = 9, reason = ''z''\<rparr>, \<lparr>name = ''A'', score = 8, reason = ''x''\<rparr>]"
  note kept = merge_keeps_attractions [of ?as ?sc]
  from kept have len: "length (mergeScoresWithAttractions ?as ?sc) = length ?as"
    by blast
  from kept have "1 < length ?as \<longrightarrow>
      (\<exists>x r. mergeScoresWithAttractions ?as ?sc ! 1 = (?as ! 1)\<lparr>interestScore := x, interestReason := r\<rparr>)"
    by blast
  with len show ?thesis by simp
qed

section \<open>Properties of the classification step\<close>

lemma classifyAttractions_skip:
  assumes "userInterests = [] \<or> \<not> isValidApiKey (getOpenApiKey env)"
  shows "classifyAttractions env attractions userInterests sent = (Inr attractions, sent)"
  using assms by (auto simp add: classifyAttractions_def return_def Let_def)

lemma classifyAttractions_run:
  assumes "userInterests \<noteq> []" and "isValidApiKey (getOpenApiKey env)"
  shows "classifyAttractions env attractions userInterests sent =
     (case axios env (classification attractions userInterests (getOpenApiKey env)) of
        Inl e \<Rightarrow> Inr attractions
      | Inr response \<Rightarrow>
          (case choices response of
             [] \<Rightarrow> Inr attractions
           | content # _ \<Rightarrow>
               (case JSON_parse_scores env (jsonText content) of
                  Inl e \<Rightarrow> Inr (mergeScoresWithAttractions attractions [])
                | Inr scores \<Rightarrow> Inr (mergeScoresWithAttractions attractions scores))),
      sent @ [classification attractions userInterests (getOpenApiKey env)])"
  using assms
  by (simp add: classifyAttractions_def Let_def try_catch_def await_def axios_post_def
      first_choice_content_def parseScoresFromResponse_def settle_def return_def throw_def
      split: sum.splits list.splits)

text \<open>
  Claim C7 as the code has it. The classification never rejects. With no interests or
  a key that does not start with \<open>sk\<close> it returns the input list and sends nothing. With
  interests and such a key it sends one request; when the request fails or the response
  has no first choice, it returns the input list; when the text of the response is not
  JSON, it returns the input attractions each with \<open>interestScore = 5\<close> and
  \<open>interestReason = ''\<close>.
\<close>

theorem classifyAttractions_fallbacks:
  "(\<exists>r. fst (classifyAttractions env attractions userInterests sent) = Inr r)
   \<and> (userInterests = [] \<or> \<not> isValidApiKey (getOpenApiKey env) \<longrightarrow>
        classifyAttractions env attractions userInterests sent = (Inr attractions, sent))
   \<and> (userInterests \<noteq> [] \<and> isValidApiKey (getOpenApiKey env) \<longrightarrow>
        snd (classifyAttractions env attractions userInterests sent)
          = sent @ [classification attractions userInterests (getOpenApiKey env)]
        \<and> (\<forall>e. axios env (classification attractions userInterests (getOpenApiKey env)) = Inl e \<longrightarrow>
              fst (classifyAttractions env attractions userInterests sent) = Inr attractions)
        \<and> (\<forall>response.
              axios env (classification attractions userInterests (getOpenApiKey env)) = Inr response
              \<and> choices response = [] \<longrightarrow>
              fst (classifyAttractions env attractions userInterests sent) = Inr attractions)
        \<and> (\<forall>response content rest e.
              axios env (classification attractions userInterests (getOpenApiKey env)) = Inr response
              \<and> choices response = content # rest
              \<and> JSON_parse_scores env (jsonText content) = Inl e \<longrightarrow>
              fst (classifyAttractions env attractions userInterests sent)
                = Inr (map (\<lambda>a. a\<lparr>interestScore := Some 5, interestReason := Some []\<rparr>) attractions)))"
proof (cases "userInterests = [] \<or> \<not> isValidApiKey (getOpenApiKey env)")
  case True
  then show ?thesis
    using classifyAttractions_skip [OF True, of attractions sent] by auto
next
  case False
  then have run: "userInterests \<noteq> []" "isValidApiKey (getOpenApiKey env)" by simp_all
  show ?thesis
    using run
    by (auto simp add: classifyAttractions_run [OF run] merge_no_scores
        split: sum.splits list.splits)
qed

theorem classifyAttractions_fallbacks_witness:
  "classifyAttractions no_key [attraction_A] [''art''] [] = (Inr [attraction_A], [])
   \<and> classifyAttractions answers_prose [attraction_A] [] [] = (Inr [attraction_A], [])
   \<and> classifyAttractions unreachable [attraction_A] [''art''] []
       = (Inr [attraction_A], [classification [attraction_A] [''art''] ''sk-test''])
   \<and> fst (classifyAttractions answers_nothing [attraction_A] [''art''] []) = Inr [attraction_A]
   \<and> fst (classifyAttractions answers_prose [attraction_A] [''art''] [])
       = Inr [attraction_A\<lparr>interestScore := Some 5, interestReason := Some []\<rparr>]"
proof -
  have key: "isValidApiKey ''sk-test''" "\<not> isValidApiKey []"
    by (simp_all add: isValidApiKey_def)
  show ?thesis
    using key
      classifyAttractions_fallbacks [of no_key "[attraction_A]" "[''art'']" "[]"]
      classifyAttractions_fallbacks [of answers_prose "[attraction_A]" "[]" "[]"]
      classifyAttractions_fallbacks [of unreachable "[attraction_A]" "[''art'']" "[]"]
      classifyAttractions_fallbacks [of answers_nothing "[attraction_A]" "[''art'']" "[]"]
      classifyAttractions_fallbacks [of answers_prose "[attraction_A]" "[''art'']" "[]"]
    by (simp add: no_key_def answers_prose_def unreachable_def answers_nothing_def
        getOpenApiKey_def prod_eq_iff)
qed

text \<open>
  Claim C7 as stated fails where the response is not JSON: the parse fails, and the list
  returned is not the input list.
\<close>

theorem classifyAttractions_unparsable_counterexample:
  "JSON_parse_scores answers_prose (jsonText ''Sorry, no scores.'') = Inl SyntaxError
   \<and> fst (classifyAttractions answers_prose [attraction_A] [''art''] [])
       = Inr [attraction_A\<lparr>interestScore := Some 5, interestReason := Some []\<rparr>]
   \<and> fst (classifyAttractions answers_prose [attraction_A] [''art''] []) \<noteq> Inr [attraction_A]"
  by (simp add: classifyAttractions_def Let_def try_catch_def await_def axios_post_def
      first_choice_content_def parseScoresFromResponse_def settle_def return_def throw_def
      answers_prose_def getOpenApiKey_def isValidApiKey_def merge_no_scores attraction_A_def)


section \<open>Properties of the location hook\<close>

lemma getCurrentLocation_result:
  "getCurrentLocation env s =
     (Inr (case permission_status env of
             Inl e \<Rightarrow> None
           | Inr status \<Rightarrow>
               if status = ''granted''
               then (case current_position env of Inl e \<Rightarrow> None | Inr loc \<Rightarrow> Some loc)
               else None), s)"
  by (simp add: getCurrentLocation_def requestPermissions_def try_catch_def await_def
      settle_def return_def throw_def split: sum.splits)

lemma reverseGeocode_result:
  "reverseGeocode env c s =
     (Inr (case nominatim_reverse env c of Inl e \<Rightarrow> None | Inr found \<Rightarrow> found), s)"
  by (simp add: reverseGeocode_def try_catch_def settle_def return_def split: sum.splits)

lemma loadLocation_result:
  "loadLocation env s =
     (Inr (),
      case fst (getCurrentLocation env s) of
        Inr (Some loc) \<Rightarrow>
          s\<lparr>location := Some \<lparr>latitude = latitude (coords loc), longitude = longitude (coords loc)\<rparr>,
            cityInfo := (case nominatim_reverse env
                                \<lparr>latitude = latitude (coords loc), longitude = longitude (coords loc)\<rparr> of
                           Inl e \<Rightarrow> None | Inr found \<Rightarrow> found),
            loading := False, error := None\<rparr>
      | _ \<Rightarrow> s\<lparr>loading := False, error := None\<rparr>)"
  by (simp add: loadLocation_def try_finally_def try_catch_def await_def setLoading_def
      setError_def setLocation_def setCityInfo_def getCurrentLocation_result
      reverseGeocode_result return_def Let_def split: sum.splits option.splits)

lemma loadLocation_never_reports:
  "fst (loadLocation env s) = Inr () \<and> error (snd (loadLocation env s)) = None"
  by (simp add: loadLocation_result split: sum.splits option.splits)

text \<open>
  Claim C4, at the inputs where the code leaves it: the hook holds the coordinates of
  Berlin and \<open>loadLocation\<close> runs while the user denies the permission, or while the
  provider has no fix. The call returns, the coordinates are kept, and no error is
  reported: \<open>error\<close> is \<open>null\<close> afterwards, as after a success.
\<close>

theorem loadLocation_denied_silent:
  "loadLocation permission_denied (resolved berlin) = (Inr (), resolved berlin)
   \<and> loadLocation provider_down (resolved berlin) = (Inr (), resolved berlin)
   \<and> location (resolved berlin) = Some berlin
   \<and> error (resolved berlin) = None
   \<and> loadLocation permission_denied mounted = (Inr (), mounted\<lparr>loading := False\<rparr>)"
  by (simp add: loadLocation_result getCurrentLocation_result permission_denied_def
      provider_down_def resolved_def mounted_def)


lemma on_position_unseen:
  "on_position env None u s =
     (Inr (), s\<lparr>location := Some \<lparr>latitude = latitude (coords u), longitude = longitude (coords u)\<rparr>,
               cityInfo := (case nominatim_reverse env
                                   \<lparr>latitude = latitude (coords u), longitude = longitude (coords u)\<rparr> of
                              Inl e \<Rightarrow> None | Inr found \<Rightarrow> found)\<rparr>)"
  by (simp add: on_position_def hasSignificantMovement_def await_def setLocation_def
      setCityInfo_def reverseGeocode_result Let_def)

lemma effect_tracking:
  "effect env True s =
     (let s1 = snd (loadLocation env s)\<lparr>subscription := None\<rparr>
      in startTracking env (location s) s1)"
  by (simp add: effect_def await_def loadLocation_result Let_def)

lemma unseen_watcher_accepts_every_update:
  assumes "watchers s = [(h, None)]"
  shows "location (snd (deliver env u s))
     = Some \<lparr>latitude = latitude (coords u), longitude = longitude (coords u)\<rparr>"
  using assms by (simp add: deliver_def await_def return_def on_position_unseen)

text \<open>
  Claim C2, at the input where the code leaves it: the hook is mounted with tracking
  enabled, the provider then reports a position a kilometre away and after it one eleven
  metres further. The watcher's closure holds the \<open>location\<close> of the first render,
  \<open>null\<close>; both updates are accepted, the second although it is insignificant relative
  to the first.
\<close>

theorem tracking_compares_with_first_render:
  "watchers (snd (effect walking True mounted)) = [(Suc 0, None)]
   \<and> location (snd (deliver walking \<lparr>coords = far_away\<rparr> (snd (effect walking True mounted))))
       = Some far_away
   \<and> \<not> hasSignificantMovement walking (Some far_away) next_door
   \<and> location (snd (deliver_all walking [\<lparr>coords = far_away\<rparr>, \<lparr>coords = next_door\<rparr>]
                      (snd (effect walking True mounted))))
       = Some next_door"
proof -
  let ?s1 = "\<lparr>location = Some berlin, cityInfo = None, loading = False, error = None,
     subscription = Some (Suc 0), watchers = [(Suc 0, None)]\<rparr>"
  let ?s2 = "\<lparr>location = Some far_away, cityInfo = None, loading = False, error = None,
     subscription = Some (Suc 0), watchers = [(Suc 0, None)]\<rparr>"
  let ?s3 = "\<lparr>location = Some next_door, cityInfo = None, loading = False, error = None,
     subscription = Some (Suc 0), watchers = [(Suc 0, None)]\<rparr>"
  have start: "snd (effect walking True mounted) = ?s1"
    by (simp add: effect_tracking loadLocation_result getCurrentLocation_result
        startTracking_def watchPosition_def requestPermissions_def
        Location_watchPositionAsync_def fresh_handle_def try_catch_def await_def settle_def
        return_def throw_def walking_def mounted_def berlin_def Let_def)
  have first: "deliver walking \<lparr>coords = far_away\<rparr> ?s1 = (Inr (), ?s2)"
    by (simp add: deliver_def await_def return_def on_position_unseen walking_def far_away_def)
  have second: "deliver walking \<lparr>coords = next_door\<rparr> ?s2 = (Inr (), ?s3)"
    by (simp add: deliver_def await_def return_def on_position_unseen walking_def next_door_def)
  have near: "\<not> hasSignificantMovement walking (Some far_away) next_door"
    by (simp add: hasSignificantMovement_def walking_def flat_distance_def far_away_def
        next_door_def)
  have both: "deliver_all walking [\<lparr>coords = far_away\<rparr>, \<lparr>coords = next_door\<rparr>] ?s1
      = (Inr (), ?s3)"
    by (simp add: await_def return_def first second)
  show ?thesis
    using near by (simp add: start first both del: deliver_all.simps)
qed

text \<open>
  Claim C9. The cleanup never rejects. With no subscription held it changes nothing; so
  it does on the freshly mounted hook, which has no watcher. A second cleanup changes
  nothing after the first. After a start on the mounted hook, whether the watch was
  registered or not, the cleanup leaves no watcher, and so does its repetition.
\<close>

theorem cleanup_without_subscription:
  "(subscription s = None \<longrightarrow> cleanup s = (Inr (), s))
   \<and> cleanup mounted = (Inr (), mounted)
   \<and> watchers mounted = []
   \<and> fst (cleanup s) = Inr ()
   \<and> cleanup (snd (cleanup s)) = (Inr (), snd (cleanup s))
   \<and> watchers (snd (cleanup (snd (startTracking env seen mounted)))) = []"
proof (intro conjI impI)
  show "cleanup s = (Inr (), s)" if "subscription s = None"
    using that by (simp add: cleanup_def return_def)
  show "cleanup mounted = (Inr (), mounted)"
    by (simp add: cleanup_def return_def mounted_def)
  show "watchers mounted = []"
    by (simp add: mounted_def)
  show "fst (cleanup s) = Inr ()"
    by (simp add: cleanup_def return_def LocationSubscription_remove_def split: option.splits)
  show "cleanup (snd (cleanup s)) = (Inr (), snd (cleanup s))"
    by (simp add: cleanup_def return_def LocationSubscription_remove_def split: option.splits)
  show "watchers (snd (cleanup (snd (startTracking env seen mounted)))) = []"
    by (simp add: cleanup_def startTracking_def watchPosition_def requestPermissions_def
        Location_watchPositionAsync_def LocationSubscription_remove_def fresh_handle_def
        try_catch_def await_def settle_def return_def throw_def mounted_def Let_def
        split: sum.splits option.splits)
qed

theorem cleanup_without_subscription_witness:
  "subscription (resolved berlin) = None
   \<and> cleanup (resolved berlin) = (Inr (), resolved berlin)
   \<and> cleanup (snd (cleanup (snd (startTracking walking None mounted))))
       = (Inr (), mounted\<lparr>subscription := Some (Suc 0)\<rparr>)"
proof -
  have none: "subscription (resolved berlin) = None"
    by (simp add: resolved_def)
  have started: "snd (startTracking walking None mounted)
      = mounted\<lparr>subscription := Some (Suc 0), watchers := [(Suc 0, None)]\<rparr>"
    by (simp add: startTracking_def watchPosition_def requestPermissions_def
        Location_watchPositionAsync_def fresh_handle_def try_catch_def await_def settle_def
        return_def throw_def walking_def mounted_def Let_def)
  have stopped: "snd (cleanup (mounted\<lparr>subscription := Some (Suc 0), watchers := [(Suc 0, None)]\<rparr>))
      = mounted\<lparr>subscription := Some (Suc 0)\<rparr>"
    by (simp add: cleanup_def LocationSubscription_remove_def mounted_def)
  show ?thesis
    using none cleanup_without_subscription [of "resolved berlin" walking None]
      cleanup_without_subscription [of "snd (startTracking walking None mounted)" walking None]
    by (simp add: started stopped)
qed

end
